theory Spec2Isabelle
  imports Main
begin

section \<open>scripts/setup\_deps.py: the vcpkg bootstrap script\<close>

text \<open>
  The script only orchestrates external tools, so the model makes the environment it reads
  and the effects it has explicit. The host (platform names, the search path, the process
  environment, the path flavour, the behaviour of external commands) is a record that the functions take as
  an argument; the file system and everything the script prints or executes are a state
  that every function returns updated. An exception is a value of type \<open>exn\<close> on the left
  of a sum.
\<close>

subsection \<open>Strings\<close>

text \<open>
  Strings are lists of characters, read as ASCII. \<open>str.lower\<close>, \<open>str.strip\<close> and
  \<open>str.split\<close> are modelled on the ASCII range (Python also folds and strips code points
  beyond it).
\<close>

definition lower_char :: "char \<Rightarrow> char" where
  "lower_char c =
     (case map_of (zip ''ABCDEFGHIJKLMNOPQRSTUVWXYZ'' ''abcdefghijklmnopqrstuvwxyz'') c of
        Some d \<Rightarrow> d
      | None \<Rightarrow> c)"

definition str_lower :: "string \<Rightarrow> string" where
  "str_lower s = map lower_char s"

text \<open>\<open>str.isspace\<close> on one ASCII character: tab, line feed, vertical tab, form feed,
  carriage return, the four separators 28 to 31, and the space.\<close>

definition is_space :: "char \<Rightarrow> bool" where
  "is_space c =
     (let n = (of_char c :: nat)
      in (9 \<le> n \<and> n \<le> 13) \<or> (28 \<le> n \<and> n \<le> 32))"

definition str_strip :: "string \<Rightarrow> string" where
  "str_strip s = rev (dropWhile is_space (rev (dropWhile is_space s)))"

text \<open>\<open>str.split()\<close> without a separator: the maximal runs of characters that are not
  whitespace, in order. \<open>cur\<close> is the run being read.\<close>

fun split_from :: "string \<Rightarrow> string \<Rightarrow> string list" where
  "split_from cur [] = (if cur = [] then [] else [cur])"
| "split_from cur (c # cs) =
     (if is_space c
      then (if cur = [] then [] else [cur]) @ split_from [] cs
      else split_from (cur @ [c]) cs)"

definition str_split :: "string \<Rightarrow> string list" where
  "str_split s = split_from [] s"

fun str_join :: "string \<Rightarrow> string list \<Rightarrow> string" where
  "str_join sep [] = []"
| "str_join sep [x] = x"
| "str_join sep (x # y # ys) = x @ sep @ str_join sep (y # ys)"

definition digit_char :: "nat \<Rightarrow> char" where
  "digit_char d = ''0123456789'' ! d"

fun str_nat :: "nat \<Rightarrow> string" where
  "str_nat n = (if n < 10 then [digit_char n] else str_nat (n div 10) @ [digit_char (n mod 10)])"

declare str_nat.simps [simp del]

definition str_int :: "int \<Rightarrow> string" where
  "str_int i = (if i < 0 then CHR ''-'' # str_nat (nat (- i)) else str_nat (nat i))"

subsection \<open>Paths\<close>

text \<open>
  A path is the string \<open>str(path)\<close> gives. \<open>Path(s)\<close> of the empty string is the current
  directory. The join \<open>p / name\<close> is defined further down, after the host: how pathlib
  spells it depends on the platform's path flavour.
\<close>

type_synonym path = string

definition Path :: "string \<Rightarrow> path" where
  "Path s = (if s = [] then ''.'' else s)"

text \<open>
  A plain file name: one component, in every flavour. It is not empty and not \<open>.\<close>
  (pathlib drops both), and has no separator (\<open>/\<close>, backslash) and no colon (a drive or
  a stream on Windows).
\<close>

definition plain_name :: "string \<Rightarrow> bool" where
  "plain_name name =
     (name \<noteq> [] \<and> name \<noteq> ''.''
      \<and> list_all (\<lambda>c. c \<noteq> CHR ''/'' \<and> c \<noteq> CHR 0x5C \<and> c \<noteq> CHR '':'') name)"

subsection \<open>Host, state and exceptions\<close>

type_synonym filesystem = "path \<Rightarrow> bool"

type_synonym environ = "string \<rightharpoonup> string"

text \<open>What \<open>subprocess.run\<close> observes of a command: it could not be started (an
  \<open>OSError\<close>), or it ran and exited with a return code, its standard output and its
  standard error.\<close>

datatype outcome = NotStarted | Exited int string string

datatype exn = CalledProcessError int | OSError | RuntimeError string

datatype event = Print string | Run "string list" "path option"

text \<open>
  The host is what the script reads of its environment: \<open>platform.system()\<close>,
  \<open>platform.machine()\<close>, \<open>os.environ\<close>, \<open>shutil.which\<close>, the project root computed from
  \<open>__file__\<close>, the path flavour of pathlib, and \<open>subprocess.run\<close>. The flavour is given by
  two functions: \<open>dir_prefix p\<close> is what \<open>str(p / name)\<close> puts in front of a plain file
  name (nothing for the current directory \<open>.\<close>, \<open>p\<close> itself when it ends in its root or
  drive, \<open>p\<close> and the flavour's separator otherwise), and \<open>join_other p name\<close> is
  \<open>str(p / name)\<close> for every other name.
\<close>

record host =
  platform_system :: string
  platform_machine :: string
  os_environ :: environ
  which :: "string \<Rightarrow> bool"
  project_root :: path
  dir_prefix :: "path \<Rightarrow> string"
  join_other :: "path \<Rightarrow> string \<Rightarrow> path"
  subprocess :: "string list \<Rightarrow> path option \<Rightarrow> environ \<Rightarrow> filesystem \<Rightarrow> outcome \<times> filesystem"

record world =
  fs :: filesystem
  out :: "event list"

record args =
  verbose :: bool
  check :: bool
  triplet :: "string option"
  vcpkg_root :: "string option"

definition print :: "string \<Rightarrow> world \<Rightarrow> world" where
  "print s w = w\<lparr>out := out w @ [Print s]\<rparr>"

text \<open>The commands executed so far, in order.\<close>

fun runs :: "event list \<Rightarrow> string list list" where
  "runs [] = []"
| "runs (Print s # es) = runs es"
| "runs (Run argv cwd # es) = argv # runs es"

text \<open>\<open>str(p / name)\<close> in the host's path flavour.\<close>

definition joinpath :: "host \<Rightarrow> path \<Rightarrow> string \<Rightarrow> path" where
  "joinpath h p name = (if plain_name name then dir_prefix h p @ name else join_other h p name)"

subsection \<open>Platform and triplet\<close>

definition get_platform :: "host \<Rightarrow> string" where
  "get_platform h = str_lower (platform_system h)"

definition get_triplet :: "host \<Rightarrow> string" where
  "get_triplet h =
     (let system = str_lower (platform_system h);
          machine = str_lower (platform_machine h)
      in if system = ''windows'' then ''x64-mingw-static''
         else if system = ''darwin'' then
           (if machine = ''arm64'' then ''arm64-osx'' else ''x64-osx'')
         else ''x64-linux'')"

subsection \<open>Running a command\<close>

text \<open>A command is an argument list or one string.\<close>

datatype cmd = CmdList "string list" | CmdStr string

definition cmd_text :: "cmd \<Rightarrow> string" where
  "cmd_text c = (case c of CmdList xs \<Rightarrow> str_join '' '' xs | CmdStr s \<Rightarrow> s)"

definition argv_of :: "cmd \<Rightarrow> string list" where
  "argv_of c = (case c of CmdStr s \<Rightarrow> str_split s | CmdList xs \<Rightarrow> xs)"

text \<open>\<open>os.environ.copy()\<close> updated with \<open>env\<close>; an absent or empty \<open>env\<close> leaves the
  copy as it is, which is also what updating with an empty dictionary gives.\<close>

definition merged_env :: "host \<Rightarrow> environ option \<Rightarrow> environ" where
  "merged_env h env = (case env of None \<Rightarrow> os_environ h | Some e \<Rightarrow> os_environ h ++ e)"

text \<open>
  \<open>run_command\<close>: print the command, execute it, and on a nonzero exit print the return
  code (and the captured standard error, when there is one) and re-raise. A command that
  cannot be started raises past the handler, which catches \<open>CalledProcessError\<close> only.
  Without capture the child writes to the inherited streams; that output is not part of
  the trace.
\<close>

definition run_command ::
  "host \<Rightarrow> cmd \<Rightarrow> path option \<Rightarrow> environ option \<Rightarrow> bool \<Rightarrow> world
     \<Rightarrow> (exn + string option) \<times> world" where
  "run_command h c cwd env capture w =
     (let w1 = print (''Running: '' @ cmd_text c) w;
          argv = argv_of c;
          (res, fs') = subprocess h argv cwd (merged_env h env) (fs w1);
          w2 = w1\<lparr>fs := fs', out := out w1 @ [Run argv cwd]\<rparr>
      in case res of
           NotStarted \<Rightarrow> (Inl OSError, w2)
         | Exited rc so se \<Rightarrow>
             if rc = 0 then (Inr (if capture then Some (str_strip so) else None), w2)
             else
               (let w3 = print (''Command failed with exit code '' @ str_int rc) w2;
                    w4 = (if capture \<and> se \<noteq> [] then print (''Error: '' @ se) w3 else w3)
                in (Inl (CalledProcessError rc), w4)))"

subsection \<open>Checking the required tools\<close>

definition check_tool :: "host \<Rightarrow> string \<Rightarrow> bool" where
  "check_tool h tool = which h tool"

definition required_tools :: "host \<Rightarrow> string list" where
  "required_tools h =
     (let system = str_lower (platform_system h)
      in [''git'', ''cmake'', ''ninja'']
         @ (if system = ''windows'' then [''clang'']
            else if system = ''darwin'' then [''clang'']
            else [''gcc'']))"

definition missing_tools :: "host \<Rightarrow> string list" where
  "missing_tools h = filter (\<lambda>tool. \<not> check_tool h tool) (required_tools h)"

definition install_hint :: "host \<Rightarrow> string" where
  "install_hint h =
     (let system = str_lower (platform_system h)
      in if system = ''linux'' then ''  sudo apt-get install build-essential cmake ninja-build git''
         else if system = ''darwin'' then ''  brew install cmake ninja git''
         else ''  choco install cmake ninja git llvm'')"

definition check_dependencies :: "host \<Rightarrow> world \<Rightarrow> bool \<times> world" where
  "check_dependencies h w =
     (let missing = missing_tools h
      in if missing \<noteq> [] then
           (let w1 = print (''Missing required tools: '' @ str_join '', '' missing) w;
                w2 = print (CHR 0x0A # ''Please install the missing tools:'') w1;
                w3 = print (install_hint h) w2
            in (False, w3))
         else (True, w))"

subsection \<open>Bootstrap and install\<close>

definition setup_vcpkg :: "host \<Rightarrow> path \<Rightarrow> bool \<Rightarrow> world \<Rightarrow> (exn + path) \<times> world" where
  "setup_vcpkg h root vb w =
     (let vcpkg_dir = joinpath h root ''vcpkg'';
          (r1, w1) =
            (if \<not> fs w vcpkg_dir then
               run_command h
                 (CmdList [''git'', ''clone'', ''https://github.com/microsoft/vcpkg.git'', vcpkg_dir])
                 None None False (print ''Cloning vcpkg...'' w)
             else
               run_command h (CmdList [''git'', ''pull'']) (Some vcpkg_dir) None False
                 (print ''Updating vcpkg...'' w))
      in case r1 of
           Inl e \<Rightarrow> (Inl e, w1)
         | Inr _ \<Rightarrow>
             (let system = str_lower (platform_system h);
                  (r2, w2) =
                    (if system = ''windows'' then
                       run_command h
                         (CmdList [joinpath h vcpkg_dir ''bootstrap-vcpkg.bat'', ''-disableMetrics''])
                         (Some vcpkg_dir) None False w1
                     else
                       run_command h
                         (CmdList [''sh'', joinpath h vcpkg_dir ''bootstrap-vcpkg.sh'', ''-disableMetrics''])
                         (Some vcpkg_dir) None False w1)
              in case r2 of
                   Inl e \<Rightarrow> (Inl e, w2)
                 | Inr _ \<Rightarrow> (Inr vcpkg_dir, w2)))"

definition vcpkg_exe_of :: "host \<Rightarrow> path \<Rightarrow> path" where
  "vcpkg_exe_of h vcpkg_dir =
     joinpath h vcpkg_dir
       (if str_lower (platform_system h) = ''windows'' then ''vcpkg.exe'' else ''vcpkg'')"

definition install_cmd :: "host \<Rightarrow> path \<Rightarrow> path \<Rightarrow> string \<Rightarrow> bool \<Rightarrow> string list" where
  "install_cmd h vcpkg_dir root trip vb =
     [vcpkg_exe_of h vcpkg_dir,
      ''install'',
      ''--triplet='' @ trip,
      ''--x-manifest-root='' @ root,
      ''--x-install-root='' @ joinpath h root ''vcpkg_installed'']
     @ (if vb then [''--debug''] else [])"

definition install_dependencies ::
  "host \<Rightarrow> path \<Rightarrow> path \<Rightarrow> string \<Rightarrow> bool \<Rightarrow> world \<Rightarrow> (exn + unit) \<times> world" where
  "install_dependencies h vcpkg_dir root trip vb w =
     (let vcpkg_exe = vcpkg_exe_of h vcpkg_dir
      in if \<not> fs w vcpkg_exe then
           (Inl (RuntimeError (''vcpkg executable not found at '' @ vcpkg_exe)), w)
         else
           (let w1 = print (''Installing dependencies for triplet: '' @ trip) w;
                (r, w2) =
                  run_command h (CmdList (install_cmd h vcpkg_dir root trip vb))
                    (Some root) None False w1
            in case r of
                 Inl e \<Rightarrow> (Inl e, w2)
               | Inr _ \<Rightarrow> (Inr (), w2)))"

subsection \<open>Entry point\<close>

text \<open>Python's truth value of an optional string argument: absent and empty are false.\<close>

fun truthy :: "string option \<Rightarrow> bool" where
  "truthy None = False"
| "truthy (Some s) = (s \<noteq> [])"

text \<open>\<open>args.triplet or get_triplet()\<close>.\<close>

definition resolve_triplet :: "host \<Rightarrow> args \<Rightarrow> string" where
  "resolve_triplet h a =
     (case triplet a of
        None \<Rightarrow> get_triplet h
      | Some t \<Rightarrow> if truthy (Some t) then t else get_triplet h)"

text \<open>
  The choice of the vcpkg directory either ends \<open>main\<close> (a raise or an exit status, on
  the left) or yields the directory (on the right).
\<close>

definition choose_vcpkg_dir ::
  "host \<Rightarrow> args \<Rightarrow> world \<Rightarrow> ((exn + int) + path) \<times> world" where
  "choose_vcpkg_dir h a w =
     (case vcpkg_root a of
        Some r \<Rightarrow>
          if truthy (Some r) then
            (let vcpkg_dir = Path r
             in if \<not> fs w vcpkg_dir then
                  (Inl (Inr 1),
                   print (''Error: Specified vcpkg root does not exist: '' @ vcpkg_dir) w)
                else (Inr vcpkg_dir, w))
          else
            (case setup_vcpkg h (project_root h) (verbose a) w of
               (Inl e, w') \<Rightarrow> (Inl (Inl e), w')
             | (Inr d, w') \<Rightarrow> (Inr d, w'))
      | None \<Rightarrow>
          (case setup_vcpkg h (project_root h) (verbose a) w of
             (Inl e, w') \<Rightarrow> (Inl (Inl e), w')
           | (Inr d, w') \<Rightarrow> (Inr d, w')))"

definition main :: "host \<Rightarrow> args \<Rightarrow> world \<Rightarrow> (exn + int) \<times> world" where
  "main h a w =
     (let root = project_root h;
          wa = print (''Project root: '' @ root) w;
          wb = print (''Platform: '' @ get_platform h) wa;
          (ok, w1) = check_dependencies h wb
      in if \<not> ok then (Inr 1, w1)
         else if check a then (Inr 0, print ''All required tools are available.'' w1)
         else
           (let trip = resolve_triplet h a;
                w2 = print (''Using triplet: '' @ trip) w1;
                (d, w3) = choose_vcpkg_dir h a w2
            in case d of
                 Inl early \<Rightarrow> (early, w3)
               | Inr vcpkg_dir \<Rightarrow>
                   (case install_dependencies h vcpkg_dir root trip (verbose a) w3 of
                      (Inl e, w4) \<Rightarrow> (Inl e, w4)
                    | (Inr _, w4) \<Rightarrow>
                        (let w5 = print (CHR 0x0A # ''Setup complete!'') w4;
                             w6 = print (''Dependencies installed to: ''
                                          @ joinpath h (joinpath h root ''vcpkg_installed'') trip) w5
                         in (Inr 0, w6)))))"

text \<open>One run of the script: \<open>main\<close> on the file system as found, with nothing printed
  or executed yet.\<close>

definition script :: "host \<Rightarrow> args \<Rightarrow> filesystem \<Rightarrow> (exn + int) \<times> world" where
  "script h a fs0 = main h a \<lparr>fs = fs0, out = []\<rparr>"

text \<open>An invocation of the dependency manager's install subcommand.\<close>

definition is_install :: "string list \<Rightarrow> bool" where
  "is_install argv = (2 \<le> length argv \<and> argv ! 1 = ''install'')"

subsection \<open>Example hosts\<close>

text \<open>An external world in which every command exits with the same return code and
  output, and leaves the file system alone.\<close>

definition replying ::
  "int \<Rightarrow> string \<Rightarrow> string
     \<Rightarrow> string list \<Rightarrow> path option \<Rightarrow> environ \<Rightarrow> filesystem \<Rightarrow> outcome \<times> filesystem" where
  "replying rc so se argv cwd env f = (Exited rc so se, f)"

text \<open>
  The POSIX flavour: the separator is \<open>/\<close>, and a path that ends in it is a root. A name
  that is not plain is taken here to be in pathlib's normal form already: an absolute
  one replaces the path, a relative one is appended.
\<close>

definition posix_prefix :: "path \<Rightarrow> string" where
  "posix_prefix p =
     (if p = [] \<or> p = ''.'' then []
      else if last p = CHR ''/'' then p
      else p @ ''/'')"

definition posix_join_other :: "path \<Rightarrow> string \<Rightarrow> path" where
  "posix_join_other p name =
     (if name = [] \<or> name = ''.'' then p
      else if hd name = CHR ''/'' then name
      else posix_prefix p @ name)"

text \<open>
  The Windows flavour, for paths with a drive letter: the separator is the backslash, and
  a path that ends in it or in the drive's colon takes the name directly. A name that is
  not plain is again taken to be in normal form: one with a drive replaces the path, a
  rooted one keeps the path's drive, a relative one is appended.
\<close>

definition windows_prefix :: "path \<Rightarrow> string" where
  "windows_prefix p =
     (if p = [] \<or> p = ''.'' then []
      else if last p = CHR 0x5C \<or> last p = CHR '':'' then p
      else p @ [CHR 0x5C])"

definition windows_join_other :: "path \<Rightarrow> string \<Rightarrow> path" where
  "windows_join_other p name =
     (if name = [] \<or> name = ''.'' then p
      else if 2 \<le> length name \<and> name ! 1 = CHR '':'' then name
      else if hd name = CHR 0x5C then
        (if 2 \<le> length p \<and> p ! 1 = CHR '':'' then take 2 p else []) @ name
      else windows_prefix p @ name)"

definition linux_host :: host where
  "linux_host =
     \<lparr>platform_system = ''Linux'', platform_machine = ''x86_64'', os_environ = Map.empty,
      which = (\<lambda>t. t \<in> set [''git'', ''cmake'', ''ninja'', ''gcc'']),
      project_root = ''/proj'', dir_prefix = posix_prefix, join_other = posix_join_other,
      subprocess = replying 0 [] []\<rparr>"

definition bare_host :: host where
  "bare_host = linux_host\<lparr>which := (\<lambda>t. t \<in> set [''git'', ''cmake''])\<rparr>"

definition failing_host :: host where
  "failing_host = linux_host\<lparr>subprocess := replying 2 [] ''boom''\<rparr>"

definition freebsd_host :: host where
  "freebsd_host = bare_host\<lparr>platform_system := ''FreeBSD''\<rparr>"

text \<open>A command that prints a version line with white space around it.\<close>

definition version_host :: host where
  "version_host = linux_host\<lparr>subprocess := replying 0 (''  v1.2 '' @ [CHR 0x0A]) []\<rparr>"

text \<open>Hosts reporting the other system and machine names of the triplet table, as
  \<open>platform.system()\<close> and \<open>platform.machine()\<close> spell them.\<close>

definition windows_host :: host where
  "windows_host =
     linux_host\<lparr>platform_system := ''Windows'', platform_machine := ''AMD64'',
       which := (\<lambda>t. t \<in> set [''git'', ''cmake'', ''ninja'', ''clang'']),
       project_root := ''C:'' @ [CHR 0x5C] @ ''proj'',
       dir_prefix := windows_prefix, join_other := windows_join_other\<rparr>"

definition mac_arm_host :: host where
  "mac_arm_host =
     linux_host\<lparr>platform_system := ''Darwin'', platform_machine := ''arm64'',
       which := (\<lambda>t. t \<in> set [''git'', ''cmake'', ''ninja'', ''clang''])\<rparr>"

definition mac_intel_host :: host where
  "mac_intel_host = mac_arm_host\<lparr>platform_machine := ''x86_64''\<rparr>"

definition plain_args :: args where
  "plain_args = \<lparr>verbose = False, check = False, triplet = None, vcpkg_root = None\<rparr>"

definition vcpkg_fs :: filesystem where
  "vcpkg_fs p = (p \<in> set [''/opt/vcpkg'', ''/opt/vcpkg/vcpkg''])"

definition empty_fs :: filesystem where
  "empty_fs p = False"

section \<open>Unfolding the model\<close>

text \<open>
  The defining equations, collected for evaluating the script on a concrete host.
\<close>

lemmas model_defs =
  script_def main_def choose_vcpkg_dir_def resolve_triplet_def install_dependencies_def
  install_cmd_def vcpkg_exe_of_def setup_vcpkg_def check_dependencies_def install_hint_def
  missing_tools_def required_tools_def check_tool_def run_command_def merged_env_def
  argv_of_def cmd_text_def get_triplet_def get_platform_def print_def joinpath_def plain_name_def
  Path_def
  str_int_def str_nat.simps digit_char_def str_split_def str_strip_def is_space_def
  str_lower_def lower_char_def is_install_def Let_def

lemmas host_defs =
  linux_host_def bare_host_def failing_host_def freebsd_host_def version_host_def
  windows_host_def mac_arm_host_def mac_intel_host_def plain_args_def
  vcpkg_fs_def empty_fs_def replying_def
  posix_prefix_def posix_join_other_def windows_prefix_def windows_join_other_def

section \<open>Auxiliary facts\<close>

subsection \<open>Trace and state\<close>

lemma runs_append [simp]: "runs (xs @ ys) = runs xs @ runs ys"
  by (induction xs rule: runs.induct) simp_all

lemma print_fs [simp]: "fs (print s w) = fs w"
  by (simp add: print_def)

lemma print_out [simp]: "out (print s w) = out w @ [Print s]"
  by (simp add: print_def)

lemma run_command_runs:
  "runs (out (snd (run_command h c cwd env cap w))) = runs (out w) @ [argv_of c]"
  by (simp add: run_command_def Let_def split: prod.splits outcome.splits)

lemma run_command_runsD:
  "run_command h c cwd env cap w = (r, w') \<Longrightarrow> runs (out w') = runs (out w) @ [argv_of c]"
  using run_command_runs [of h c cwd env cap w] by simp

lemma check_dependencies_fs [simp]: "fs (snd (check_dependencies h w)) = fs w"
  by (simp add: check_dependencies_def Let_def)

lemma check_dependencies_runs [simp]:
  "runs (out (snd (check_dependencies h w))) = runs (out w)"
  by (simp add: check_dependencies_def Let_def)

lemma check_dependencies_ok: "fst (check_dependencies h w) = (missing_tools h = [])"
  by (simp add: check_dependencies_def Let_def)

lemma check_dependencies_present:
  "missing_tools h = [] \<Longrightarrow> check_dependencies h w = (True, w)"
  by (simp add: check_dependencies_def)

lemma check_dependencies_missing:
  "missing_tools h \<noteq> [] \<Longrightarrow>
   check_dependencies h w =
     (False, print (install_hint h)
               (print (CHR 0x0A # ''Please install the missing tools:'')
                  (print (''Missing required tools: '' @ str_join '', '' (missing_tools h)) w)))"
  by (simp add: check_dependencies_def Let_def)

lemma missing_tools_empty:
  "(missing_tools h = []) = (\<forall>tool\<in>set (required_tools h). which h tool)"
  by (simp add: missing_tools_def check_tool_def filter_empty_conv)

subsection \<open>Stripping and splitting\<close>

text \<open>
  \<open>str_strip\<close> removes a whitespace prefix and a whitespace suffix, and what is left neither
  starts nor ends with whitespace.
\<close>

lemma last_dropWhile: "dropWhile P xs \<noteq> [] \<Longrightarrow> last (dropWhile P xs) = last xs"
  by (induction xs) (auto split: if_splits)

lemma str_strip_decomp:
  "\<exists>pre post. s = pre @ str_strip s @ post
      \<and> (\<forall>c\<in>set pre. is_space c) \<and> (\<forall>c\<in>set post. is_space c)"
proof -
  let ?t = "dropWhile is_space s"
  let ?pre = "takeWhile is_space s"
  let ?post = "rev (takeWhile is_space (rev ?t))"
  have "rev (dropWhile is_space (rev ?t)) @ rev (takeWhile is_space (rev ?t)) = ?t"
    by (metis rev_append rev_rev_ident takeWhile_dropWhile_id)
  then have "?t = str_strip s @ ?post"
    by (simp add: str_strip_def)
  then have "s = ?pre @ str_strip s @ ?post"
    by (metis takeWhile_dropWhile_id)
  moreover have "\<forall>c\<in>set ?pre. is_space c"
    by (auto dest: set_takeWhileD)
  moreover have "\<forall>c\<in>set ?post. is_space c"
    by (auto dest: set_takeWhileD)
  ultimately show ?thesis by blast
qed

lemma str_strip_ends:
  assumes "str_strip s \<noteq> []"
  shows "\<not> is_space (hd (str_strip s)) \<and> \<not> is_space (last (str_strip s))"
proof -
  let ?t = "dropWhile is_space s"
  let ?u = "dropWhile is_space (rev ?t)"
  from assms have u: "?u \<noteq> []" by (simp add: str_strip_def)
  have t: "?t \<noteq> []"
  proof
    assume e: "?t = []"
    have "?u = []" unfolding e by simp
    with u show False by contradiction
  qed
  have "last (str_strip s) = hd ?u"
    using u by (simp add: str_strip_def last_rev)
  moreover have "\<not> is_space (hd ?u)"
    using u by (rule hd_dropWhile)
  moreover have "hd (str_strip s) = last ?u"
    using u by (simp add: str_strip_def hd_rev)
  moreover have "last ?u = last (rev ?t)"
    using u by (rule last_dropWhile)
  moreover have "last (rev ?t) = hd ?t"
    using t by (simp add: last_rev)
  moreover have "\<not> is_space (hd ?t)"
    using t by (rule hd_dropWhile)
  ultimately show ?thesis by simp
qed

lemma split_from_words_aux:
  "a \<in> set (split_from cur s) \<Longrightarrow> \<forall>c\<in>set cur. \<not> is_space c \<Longrightarrow>
   a \<noteq> [] \<and> (\<forall>c\<in>set a. \<not> is_space c)"
proof (induction cur s rule: split_from.induct)
  case (1 cur)
  then show ?case by (auto split: if_splits)
next
  case (2 cur c cs)
  show ?case
  proof (cases "is_space c")
    case True
    with 2 show ?thesis by (auto split: if_splits)
  next
    case False
    with 2 show ?thesis by auto
  qed
qed

lemma split_from_words:
  "\<forall>c\<in>set cur. \<not> is_space c \<Longrightarrow>
   \<forall>a\<in>set (split_from cur s). a \<noteq> [] \<and> (\<forall>c\<in>set a. \<not> is_space c)"
  using split_from_words_aux by blast

lemma concat_split_from:
  "concat (split_from cur s) = cur @ filter (\<lambda>c. \<not> is_space c) s"
  by (induction s arbitrary: cur) auto

subsection \<open>The commands a run executes\<close>

lemma joinpath_plain: "plain_name name \<Longrightarrow> joinpath h p name = dir_prefix h p @ name"
  by (simp add: joinpath_def)

lemma joinpath_not_install: "joinpath h p ''bootstrap-vcpkg.sh'' \<noteq> ''install''"
proof
  assume "joinpath h p ''bootstrap-vcpkg.sh'' = ''install''"
  then have "length (joinpath h p ''bootstrap-vcpkg.sh'') = length ''install''"
    by (rule arg_cong)
  moreover have "plain_name ''bootstrap-vcpkg.sh''"
    by (simp add: plain_name_def)
  ultimately show False by (simp add: joinpath_plain)
qed

lemma setup_vcpkg_runsD:
  assumes "setup_vcpkg h root vb w = (r, w')"
  shows "\<exists>cs. runs (out w') = runs (out w) @ cs \<and> (\<forall>c\<in>set cs. \<not> is_install c)"
  using assms joinpath_not_install
  by (auto simp: setup_vcpkg_def Let_def is_install_def argv_of_def
           split: prod.splits sum.splits if_splits dest!: run_command_runsD)

lemma install_dependencies_runsD:
  assumes "install_dependencies h d root t vb w = (r, w')"
  shows "runs (out w') = runs (out w) \<or> runs (out w') = runs (out w) @ [install_cmd h d root t vb]"
  using assms
  by (auto simp: install_dependencies_def Let_def argv_of_def
           split: prod.splits sum.splits if_splits dest!: run_command_runsD)

lemma choose_vcpkg_dir_runsD:
  assumes "choose_vcpkg_dir h a w = (r, w')"
  shows "\<exists>cs. runs (out w') = runs (out w) @ cs \<and> (\<forall>c\<in>set cs. \<not> is_install c)"
proof (cases "truthy (vcpkg_root a)")
  case True
  then obtain p where p: "vcpkg_root a = Some p" "p \<noteq> []"
    by (cases "vcpkg_root a") auto
  with assms have "runs (out w') = runs (out w)"
    by (auto simp: choose_vcpkg_dir_def Let_def split: if_splits)
  then show ?thesis by simp
next
  case False
  then have "choose_vcpkg_dir h a w =
      (case setup_vcpkg h (project_root h) (verbose a) w of
         (Inl e, w') \<Rightarrow> (Inl (Inl e), w')
       | (Inr d, w') \<Rightarrow> (Inr d, w'))"
    by (cases "vcpkg_root a") (simp_all add: choose_vcpkg_dir_def)
  with assms obtain r0 where "setup_vcpkg h (project_root h) (verbose a) w = (r0, w')"
    by (auto split: prod.splits sum.splits)
  then show ?thesis by (rule setup_vcpkg_runsD)
qed

lemma main_runs:
  "\<exists>cs. runs (out (snd (main h a w))) = runs (out w) @ cs
      \<and> (\<forall>c\<in>set cs. is_install c \<longrightarrow>
            (\<exists>d. c = install_cmd h d (project_root h) (resolve_triplet h a) (verbose a)))"
proof (cases "missing_tools h = []")
  case False
  then have "runs (out (snd (main h a w))) = runs (out w)"
    by (simp add: main_def Let_def check_dependencies_missing)
  then show ?thesis by simp
next
  case present: True
  show ?thesis
  proof (cases "check a")
    case True
    with present have "runs (out (snd (main h a w))) = runs (out w)"
      by (simp add: main_def Let_def check_dependencies_present)
    then show ?thesis by simp
  next
    case False
    let ?t = "resolve_triplet h a"
    let ?w2 = "print (''Using triplet: '' @ ?t)
                 (print (''Platform: '' @ get_platform h)
                    (print (''Project root: '' @ project_root h) w))"
    obtain d w3 where c: "choose_vcpkg_dir h a ?w2 = (d, w3)"
      by (cases "choose_vcpkg_dir h a ?w2")
    from choose_vcpkg_dir_runsD [OF c]
    obtain cs where cs: "runs (out w3) = runs (out w) @ cs" "\<forall>c\<in>set cs. \<not> is_install c"
      by auto
    show ?thesis
    proof (cases d)
      case (Inl early)
      with present False c have "snd (main h a w) = w3"
        by (simp add: main_def Let_def check_dependencies_present)
      with cs show ?thesis by auto
    next
      case (Inr dir)
      obtain r w4 where i: "install_dependencies h dir (project_root h) ?t (verbose a) w3 = (r, w4)"
        by (cases "install_dependencies h dir (project_root h) ?t (verbose a) w3")
      from present False c Inr i have "runs (out (snd (main h a w))) = runs (out w4)"
        by (cases r) (simp_all add: main_def Let_def check_dependencies_present)
      moreover from install_dependencies_runsD [OF i] cs
      have "runs (out w4) = runs (out w) @ cs
          \<or> runs (out w4) = runs (out w) @ (cs @ [install_cmd h dir (project_root h) ?t (verbose a)])"
        by auto
      ultimately show ?thesis using cs(2) by auto
    qed
  qed
qed

lemma main_cong:
  assumes v: "verbose a = verbose b" and c: "check a = check b"
      and r: "resolve_triplet h a = resolve_triplet h b"
      and d: "\<And>w. choose_vcpkg_dir h a w = choose_vcpkg_dir h b w"
  shows "main h a w = main h b w"
  unfolding main_def v c r d by (rule refl)

section \<open>Properties\<close>

text \<open>
  C1. \<open>get_triplet\<close> returns the documented string for every platform: x64-mingw-static
  on windows, arm64-osx on darwin with an arm64 machine, x64-osx on darwin with any other
  machine, and x64-linux for every other system name, the names compared in lower case.
  In particular a host reporting \<open>Windows\<close> gets x64-mingw-static, one reporting \<open>Darwin\<close>
  gets arm64-osx on an \<open>arm64\<close> machine and x64-osx on an \<open>x86_64\<close> machine, and one
  reporting \<open>Linux\<close> gets x64-linux.
\<close>

theorem get_triplet_table:
  "get_triplet h =
     (if str_lower (platform_system h) = ''windows'' then ''x64-mingw-static''
      else if str_lower (platform_system h) = ''darwin''
              \<and> str_lower (platform_machine h) = ''arm64'' then ''arm64-osx''
      else if str_lower (platform_system h) = ''darwin'' then ''x64-osx''
      else ''x64-linux'')
   \<and> (platform_system h = ''Windows'' \<longrightarrow> get_triplet h = ''x64-mingw-static'')
   \<and> (platform_system h = ''Darwin'' \<and> platform_machine h = ''arm64''
        \<longrightarrow> get_triplet h = ''arm64-osx'')
   \<and> (platform_system h = ''Darwin'' \<and> platform_machine h = ''x86_64''
        \<longrightarrow> get_triplet h = ''x64-osx'')
   \<and> (platform_system h = ''Linux'' \<longrightarrow> get_triplet h = ''x64-linux'')"
proof -
  have t: "get_triplet h =
     (if str_lower (platform_system h) = ''windows'' then ''x64-mingw-static''
      else if str_lower (platform_system h) = ''darwin''
              \<and> str_lower (platform_machine h) = ''arm64'' then ''arm64-osx''
      else if str_lower (platform_system h) = ''darwin'' then ''x64-osx''
      else ''x64-linux'')"
    by (simp add: get_triplet_def)
  have w: "platform_system h = ''Windows'' \<longrightarrow> get_triplet h = ''x64-mingw-static''"
    by (simp add: get_triplet_def str_lower_def lower_char_def)
  have a: "platform_system h = ''Darwin'' \<and> platform_machine h = ''arm64''
            \<longrightarrow> get_triplet h = ''arm64-osx''"
    by (simp add: get_triplet_def str_lower_def lower_char_def)
  have i: "platform_system h = ''Darwin'' \<and> platform_machine h = ''x86_64''
            \<longrightarrow> get_triplet h = ''x64-osx''"
    by (simp add: get_triplet_def str_lower_def lower_char_def)
  have l: "platform_system h = ''Linux'' \<longrightarrow> get_triplet h = ''x64-linux''"
    by (simp add: get_triplet_def str_lower_def lower_char_def)
  from t w a i l show ?thesis by (intro conjI)
qed

theorem get_triplet_table_witness:
  "platform_system windows_host = ''Windows''
   \<and> get_triplet windows_host = ''x64-mingw-static''
   \<and> platform_system mac_arm_host = ''Darwin'' \<and> platform_machine mac_arm_host = ''arm64''
   \<and> get_triplet mac_arm_host = ''arm64-osx''
   \<and> platform_system mac_intel_host = ''Darwin'' \<and> platform_machine mac_intel_host = ''x86_64''
   \<and> get_triplet mac_intel_host = ''x64-osx''
   \<and> platform_system linux_host = ''Linux''
   \<and> get_triplet linux_host = ''x64-linux''"
proof -
  have w: "platform_system windows_host = ''Windows''"
    by (simp add: windows_host_def)
  have a: "platform_system mac_arm_host = ''Darwin''" "platform_machine mac_arm_host = ''arm64''"
    by (simp_all add: mac_arm_host_def)
  have i: "platform_system mac_intel_host = ''Darwin''"
          "platform_machine mac_intel_host = ''x86_64''"
    by (simp_all add: mac_intel_host_def mac_arm_host_def)
  have l: "platform_system linux_host = ''Linux''"
    by (simp add: linux_host_def)
  from get_triplet_table [of windows_host] w
  have tw: "get_triplet windows_host = ''x64-mingw-static''" by blast
  from get_triplet_table [of mac_arm_host] a
  have ta: "get_triplet mac_arm_host = ''arm64-osx''" by blast
  from get_triplet_table [of mac_intel_host] i
  have ti: "get_triplet mac_intel_host = ''x64-osx''" by blast
  from get_triplet_table [of linux_host] l
  have tl: "get_triplet linux_host = ''x64-linux''" by blast
  from w tw a ta i ti l tl show ?thesis by (intro conjI)
qed

text \<open>
  C2. With a non-empty \<open>--triplet\<close> override, the triplet \<open>main\<close> resolves is the override,
  whatever the platform, and every install command the run executes carries exactly that
  value in its \<open>--triplet=\<close> argument. (An empty override is not covered: \<open>main\<close> tests
  the argument for truth, and then the platform's triplet is used.)
\<close>

theorem override_reaches_install:
  assumes "triplet a = Some t" and "t \<noteq> []"
  shows "resolve_triplet h a = t
       \<and> (\<forall>argv\<in>set (runs (out (snd (script h a fs0)))).
            is_install argv \<longrightarrow> argv ! 2 = ''--triplet='' @ t)"
proof -
  from assms have t: "resolve_triplet h a = t"
    by (simp add: resolve_triplet_def)
  from main_runs [of h a "\<lparr>fs = fs0, out = []\<rparr>"]
  obtain cs where "runs (out (snd (script h a fs0))) = cs"
    and "\<forall>c\<in>set cs. is_install c \<longrightarrow>
            (\<exists>d. c = install_cmd h d (project_root h) (resolve_triplet h a) (verbose a))"
    by (auto simp: script_def)
  then have "\<forall>argv\<in>set (runs (out (snd (script h a fs0)))).
            is_install argv \<longrightarrow> argv ! 2 = ''--triplet='' @ t"
    using t by (auto simp: install_cmd_def)
  with t show ?thesis by simp
qed

text \<open>
  On a Linux host with an existing vcpkg root the install command carries the override.
\<close>

theorem override_reaches_install_witness:
  "triplet (plain_args\<lparr>triplet := Some ''x64-linux-dynamic'', vcpkg_root := Some ''/opt/vcpkg''\<rparr>)
     = Some ''x64-linux-dynamic''
   \<and> ''x64-linux-dynamic'' \<noteq> []
   \<and> resolve_triplet linux_host
       (plain_args\<lparr>triplet := Some ''x64-linux-dynamic'', vcpkg_root := Some ''/opt/vcpkg''\<rparr>)
     = ''x64-linux-dynamic''
   \<and> runs (out (snd (script linux_host
          (plain_args\<lparr>triplet := Some ''x64-linux-dynamic'', vcpkg_root := Some ''/opt/vcpkg''\<rparr>)
          vcpkg_fs)))
     = [[''/opt/vcpkg/vcpkg'', ''install'', ''--triplet=x64-linux-dynamic'',
         ''--x-manifest-root=/proj'', ''--x-install-root=/proj/vcpkg_installed'']]"
proof -
  have h1: "triplet (plain_args\<lparr>triplet := Some ''x64-linux-dynamic'',
              vcpkg_root := Some ''/opt/vcpkg''\<rparr>) = Some ''x64-linux-dynamic''"
    by simp
  have h2: "''x64-linux-dynamic'' \<noteq> []" by simp
  have r: "runs (out (snd (script linux_host
          (plain_args\<lparr>triplet := Some ''x64-linux-dynamic'', vcpkg_root := Some ''/opt/vcpkg''\<rparr>)
          vcpkg_fs)))
     = [[''/opt/vcpkg/vcpkg'', ''install'', ''--triplet=x64-linux-dynamic'',
         ''--x-manifest-root=/proj'', ''--x-install-root=/proj/vcpkg_installed'']]"
    by (simp add: model_defs host_defs)
  from override_reaches_install [OF h1 h2, of linux_host vcpkg_fs] h1 h2 r
  show ?thesis by blast
qed

text \<open>
  With \<open>--triplet\<close> given as the empty string on the same host, the install command
  carries the platform's triplet x64-linux, not the supplied value.
\<close>

theorem empty_override_counterexample:
  "triplet (plain_args\<lparr>triplet := Some [], vcpkg_root := Some ''/opt/vcpkg''\<rparr>) = Some []
   \<and> runs (out (snd (script linux_host
          (plain_args\<lparr>triplet := Some [], vcpkg_root := Some ''/opt/vcpkg''\<rparr>) vcpkg_fs)))
     = [[''/opt/vcpkg/vcpkg'', ''install'', ''--triplet=x64-linux'',
         ''--x-manifest-root=/proj'', ''--x-install-root=/proj/vcpkg_installed'']]"
  by (simp add: model_defs host_defs)

text \<open>
  C3. When a required tool is not on the search path, \<open>check_dependencies\<close> returns
  false (its result is a boolean; it has no raising branch), \<open>main\<close> returns 1, and the
  run executes no command at all and leaves the file system as it was.
\<close>

theorem missing_tool_stops_main:
  assumes "tool \<in> set (required_tools h)" and "\<not> which h tool"
  shows "\<not> fst (check_dependencies h w)
       \<and> fst (script h a fs0) = Inr 1
       \<and> runs (out (snd (script h a fs0))) = []
       \<and> fs (snd (script h a fs0)) = fs0"
proof -
  from assms have m: "missing_tools h \<noteq> []"
    by (auto simp: missing_tools_empty)
  then have "\<not> fst (check_dependencies h w)"
    by (simp add: check_dependencies_ok)
  moreover from m have "fst (script h a fs0) = Inr 1"
    by (simp add: script_def main_def Let_def check_dependencies_missing)
  moreover from m have "runs (out (snd (script h a fs0))) = []"
    by (simp add: script_def main_def Let_def check_dependencies_missing)
  moreover from m have "fs (snd (script h a fs0)) = fs0"
    by (simp add: script_def main_def Let_def check_dependencies_missing)
  ultimately show ?thesis by simp
qed

theorem missing_tool_stops_main_witness:
  "''ninja'' \<in> set (required_tools bare_host) \<and> \<not> which bare_host ''ninja''
   \<and> \<not> fst (check_dependencies bare_host \<lparr>fs = empty_fs, out = []\<rparr>)
   \<and> fst (script bare_host plain_args empty_fs) = Inr 1
   \<and> runs (out (snd (script bare_host plain_args empty_fs))) = []"
proof -
  have h1: "''ninja'' \<in> set (required_tools bare_host)"
    by (simp add: model_defs host_defs)
  have h2: "\<not> which bare_host ''ninja''"
    by (simp add: host_defs)
  from missing_tool_stops_main [OF h1 h2, of "\<lparr>fs = empty_fs, out = []\<rparr>" plain_args empty_fs] h1 h2
  show ?thesis by simp
qed

text \<open>
  C4. With \<open>--check\<close> and every required tool present, \<open>main\<close> returns 0, executes no
  command (no clone, pull, bootstrap or install) and leaves the file system as it was.
\<close>

theorem check_only_touches_nothing:
  assumes "check a" and "\<forall>tool\<in>set (required_tools h). which h tool"
  shows "fst (script h a fs0) = Inr 0
       \<and> runs (out (snd (script h a fs0))) = []
       \<and> fs (snd (script h a fs0)) = fs0"
proof -
  from assms(2) have m: "missing_tools h = []"
    by (simp add: missing_tools_empty)
  from m assms(1) have "fst (script h a fs0) = Inr 0"
    by (simp add: script_def main_def Let_def check_dependencies_present)
  moreover from m assms(1) have "runs (out (snd (script h a fs0))) = []"
    by (simp add: script_def main_def Let_def check_dependencies_present)
  moreover from m assms(1) have "fs (snd (script h a fs0)) = fs0"
    by (simp add: script_def main_def Let_def check_dependencies_present)
  ultimately show ?thesis by simp
qed

theorem check_only_touches_nothing_witness:
  "check (plain_args\<lparr>check := True\<rparr>)
   \<and> list_all (which linux_host) (required_tools linux_host)
   \<and> fst (script linux_host (plain_args\<lparr>check := True\<rparr>) empty_fs) = Inr 0
   \<and> runs (out (snd (script linux_host (plain_args\<lparr>check := True\<rparr>) empty_fs))) = []
   \<and> fs (snd (script linux_host (plain_args\<lparr>check := True\<rparr>) empty_fs)) = empty_fs"
proof -
  have h1: "check (plain_args\<lparr>check := True\<rparr>)" by simp
  have h2: "\<forall>tool\<in>set (required_tools linux_host). which linux_host tool"
    by (simp add: model_defs host_defs)
  from check_only_touches_nothing [OF h1 h2, of empty_fs] h1 h2
  show ?thesis by (simp add: list_all_iff)
qed

text \<open>
  C5. With \<open>--vcpkg-root\<close> naming a non-empty path that does not exist, the run executes
  no command and leaves the file system as it was; \<open>main\<close> returns 1, except that with
  \<open>--check\<close> and every required tool present it has already returned 0.
\<close>

theorem missing_vcpkg_root_stops_main:
  assumes "vcpkg_root a = Some r" and "r \<noteq> []" and "\<not> fs0 (Path r)"
  shows "runs (out (snd (script h a fs0))) = []
       \<and> fs (snd (script h a fs0)) = fs0
       \<and> fst (script h a fs0) = (if check a \<and> missing_tools h = [] then Inr 0 else Inr 1)"
proof (cases "missing_tools h = []")
  case False
  then show ?thesis
    by (simp add: script_def main_def Let_def check_dependencies_missing)
next
  case present: True
  show ?thesis
  proof (cases "check a")
    case True
    with present show ?thesis
      by (simp add: script_def main_def Let_def check_dependencies_present)
  next
    case False
    with present assms show ?thesis
      by (simp add: script_def main_def Let_def check_dependencies_present choose_vcpkg_dir_def)
  qed
qed

theorem missing_vcpkg_root_witness:
  "vcpkg_root (plain_args\<lparr>vcpkg_root := Some ''/nonexistent''\<rparr>) = Some ''/nonexistent''
   \<and> ''/nonexistent'' \<noteq> []
   \<and> \<not> empty_fs (Path ''/nonexistent'')
   \<and> runs (out (snd (script linux_host (plain_args\<lparr>vcpkg_root := Some ''/nonexistent''\<rparr>) empty_fs))) = []
   \<and> fst (script linux_host (plain_args\<lparr>vcpkg_root := Some ''/nonexistent''\<rparr>) empty_fs) = Inr 1"
proof -
  have h1: "vcpkg_root (plain_args\<lparr>vcpkg_root := Some ''/nonexistent''\<rparr>) = Some ''/nonexistent''"
    by simp
  have h2: "''/nonexistent'' \<noteq> []" by simp
  have h3: "\<not> empty_fs (Path ''/nonexistent'')" by (simp add: empty_fs_def)
  have c: "\<not> check (plain_args\<lparr>vcpkg_root := Some ''/nonexistent''\<rparr>)"
    by (simp add: plain_args_def)
  from missing_vcpkg_root_stops_main
         [where a = "plain_args\<lparr>vcpkg_root := Some ''/nonexistent''\<rparr>" and r = "''/nonexistent''"
            and ?fs0.0 = empty_fs and h = linux_host, OF h1 h2 h3] c h1 h2 h3
  show ?thesis by simp
qed

text \<open>
  With \<open>--check\<close> and all tools present, a missing \<open>--vcpkg-root\<close> is never looked
  at and the exit status is 0.
\<close>

theorem missing_vcpkg_root_counterexample:
  "vcpkg_root (plain_args\<lparr>check := True, vcpkg_root := Some ''/nonexistent''\<rparr>) = Some ''/nonexistent''
   \<and> \<not> empty_fs (Path ''/nonexistent'')
   \<and> fst (script linux_host (plain_args\<lparr>check := True, vcpkg_root := Some ''/nonexistent''\<rparr>) empty_fs)
       = Inr 0"
  by (simp add: model_defs host_defs)

text \<open>
  C6. When the command runs and exits: on a zero exit \<open>run_command\<close> returns the trimmed
  standard output in capture mode and \<open>None\<close> otherwise; on a nonzero exit it raises
  \<open>CalledProcessError\<close> in both modes, after printing the return code and, in capture mode,
  the captured standard error (when there is any). Trimmed means: the standard output is
  the returned string between two runs of white space (tab, line feed, vertical tab,
  form feed, carriage return and space are white space), and the returned string, when
  it is not empty, neither begins nor ends with white space.
\<close>

theorem run_command_modes:
  assumes "subprocess h (argv_of c) cwd (merged_env h env) (fs w) = (Exited rc so se, f')"
  shows "fst (run_command h c cwd env capture w) =
           (if rc = 0 then Inr (if capture then Some (str_strip so) else None)
            else Inl (CalledProcessError rc))
       \<and> (\<exists>pre post. so = pre @ str_strip so @ post
                      \<and> (\<forall>x\<in>set pre. is_space x) \<and> (\<forall>x\<in>set post. is_space x))
       \<and> (str_strip so \<noteq> [] \<longrightarrow>
            \<not> is_space (hd (str_strip so)) \<and> \<not> is_space (last (str_strip so)))
       \<and> list_all is_space [CHR 0x09, CHR 0x0A, CHR 0x0B, CHR 0x0C, CHR 0x0D, CHR '' '']
       \<and> out (snd (run_command h c cwd env capture w)) =
           out w @ [Print (''Running: '' @ cmd_text c), Run (argv_of c) cwd]
           @ (if rc = 0 then []
              else Print (''Command failed with exit code '' @ str_int rc)
                   # (if capture \<and> se \<noteq> [] then [Print (''Error: '' @ se)] else []))"
proof -
  have r: "fst (run_command h c cwd env capture w) =
           (if rc = 0 then Inr (if capture then Some (str_strip so) else None)
            else Inl (CalledProcessError rc))"
    using assms by (simp add: run_command_def Let_def)
  have d: "\<exists>pre post. so = pre @ str_strip so @ post
                      \<and> (\<forall>x\<in>set pre. is_space x) \<and> (\<forall>x\<in>set post. is_space x)"
    by (rule str_strip_decomp)
  have e: "str_strip so \<noteq> [] \<longrightarrow>
            \<not> is_space (hd (str_strip so)) \<and> \<not> is_space (last (str_strip so))"
    using str_strip_ends by blast
  have s: "list_all is_space [CHR 0x09, CHR 0x0A, CHR 0x0B, CHR 0x0C, CHR 0x0D, CHR '' '']"
    by (simp add: is_space_def)
  have t: "out (snd (run_command h c cwd env capture w)) =
           out w @ [Print (''Running: '' @ cmd_text c), Run (argv_of c) cwd]
           @ (if rc = 0 then []
              else Print (''Command failed with exit code '' @ str_int rc)
                   # (if capture \<and> se \<noteq> [] then [Print (''Error: '' @ se)] else []))"
    using assms by (simp add: run_command_def Let_def)
  from r d e s t show ?thesis by (intro conjI)
qed

theorem run_command_modes_witness:
  "subprocess version_host (argv_of (CmdList [''vcpkg'', ''version''])) None
       (merged_env version_host None) empty_fs
     = (Exited 0 (''  v1.2 '' @ [CHR 0x0A]) [], empty_fs)
   \<and> str_strip (''  v1.2 '' @ [CHR 0x0A]) = ''v1.2''
   \<and> run_command version_host (CmdList [''vcpkg'', ''version'']) None None True
       \<lparr>fs = empty_fs, out = []\<rparr>
     = (Inr (Some ''v1.2''),
        \<lparr>fs = empty_fs,
         out = [Print ''Running: vcpkg version'', Run [''vcpkg'', ''version''] None]\<rparr>)
   \<and> run_command version_host (CmdList [''vcpkg'', ''version'']) None None False
       \<lparr>fs = empty_fs, out = []\<rparr>
     = (Inr None,
        \<lparr>fs = empty_fs,
         out = [Print ''Running: vcpkg version'', Run [''vcpkg'', ''version''] None]\<rparr>)
   \<and> subprocess failing_host (argv_of (CmdStr ''git status'')) None (merged_env failing_host None) empty_fs
     = (Exited 2 [] ''boom'', empty_fs)
   \<and> run_command failing_host (CmdStr ''git status'') None None True \<lparr>fs = empty_fs, out = []\<rparr>
     = (Inl (CalledProcessError 2),
        \<lparr>fs = empty_fs,
         out = [Print ''Running: git status'', Run [''git'', ''status''] None,
                Print ''Command failed with exit code 2'', Print ''Error: boom'']\<rparr>)
   \<and> run_command failing_host (CmdStr ''git status'') None None False \<lparr>fs = empty_fs, out = []\<rparr>
     = (Inl (CalledProcessError 2),
        \<lparr>fs = empty_fs,
         out = [Print ''Running: git status'', Run [''git'', ''status''] None,
                Print ''Command failed with exit code 2'']\<rparr>)"
proof -
  let ?w = "\<lparr>fs = empty_fs, out = []\<rparr>"
  have hv: "subprocess version_host (argv_of (CmdList [''vcpkg'', ''version''])) None
              (merged_env version_host None) (fs ?w)
            = (Exited 0 (''  v1.2 '' @ [CHR 0x0A]) [], empty_fs)"
    by (simp add: host_defs)
  have hf: "subprocess failing_host (argv_of (CmdStr ''git status'')) None
              (merged_env failing_host None) (fs ?w)
            = (Exited 2 [] ''boom'', empty_fs)"
    by (simp add: host_defs)
  have sv: "str_strip (''  v1.2 '' @ [CHR 0x0A]) = ''v1.2''"
    by (simp add: str_strip_def is_space_def)
  have fsv: "fs (snd (run_command version_host (CmdList [''vcpkg'', ''version'']) None None b ?w))
             = empty_fs" for b
    by (simp add: run_command_def Let_def host_defs)
  have fsf: "fs (snd (run_command failing_host (CmdStr ''git status'') None None b ?w))
             = empty_fs" for b
    by (simp add: run_command_def Let_def host_defs)
  have tv: "cmd_text (CmdList [''vcpkg'', ''version'']) = ''vcpkg version''"
           "argv_of (CmdList [''vcpkg'', ''version'']) = [''vcpkg'', ''version'']"
    by (simp_all add: cmd_text_def argv_of_def)
  have tf: "cmd_text (CmdStr ''git status'') = ''git status''"
           "argv_of (CmdStr ''git status'') = [''git'', ''status'']"
    by (simp_all add: cmd_text_def argv_of_def str_split_def is_space_def)
  have n2: "str_int 2 = ''2''"
    by (simp add: str_int_def str_nat.simps digit_char_def)
  have e1: "run_command version_host (CmdList [''vcpkg'', ''version'']) None None True ?w
     = (Inr (Some ''v1.2''),
        \<lparr>fs = empty_fs,
         out = [Print ''Running: vcpkg version'', Run [''vcpkg'', ''version''] None]\<rparr>)"
    using run_command_modes [OF hv, of True] fsv [of True] sv tv
    by (cases "run_command version_host (CmdList [''vcpkg'', ''version'']) None None True ?w")
       simp
  have e2: "run_command version_host (CmdList [''vcpkg'', ''version'']) None None False ?w
     = (Inr None,
        \<lparr>fs = empty_fs,
         out = [Print ''Running: vcpkg version'', Run [''vcpkg'', ''version''] None]\<rparr>)"
    using run_command_modes [OF hv, of False] fsv [of False] tv
    by (cases "run_command version_host (CmdList [''vcpkg'', ''version'']) None None False ?w")
       simp
  have e3: "run_command failing_host (CmdStr ''git status'') None None True ?w
     = (Inl (CalledProcessError 2),
        \<lparr>fs = empty_fs,
         out = [Print ''Running: git status'', Run [''git'', ''status''] None,
                Print ''Command failed with exit code 2'', Print ''Error: boom'']\<rparr>)"
    using run_command_modes [OF hf, of True] fsf [of True] tf n2
    by (cases "run_command failing_host (CmdStr ''git status'') None None True ?w")
       simp
  have e4: "run_command failing_host (CmdStr ''git status'') None None False ?w
     = (Inl (CalledProcessError 2),
        \<lparr>fs = empty_fs,
         out = [Print ''Running: git status'', Run [''git'', ''status''] None,
                Print ''Command failed with exit code 2'']\<rparr>)"
    using run_command_modes [OF hf, of False] fsf [of False] tf n2
    by (cases "run_command failing_host (CmdStr ''git status'') None None False ?w")
       simp
  from hv hf sv e1 e2 e3 e4 show ?thesis by simp
qed

text \<open>
  C7. When the dependency manager's executable (vcpkg.exe on windows, vcpkg elsewhere) is
  not in the tool directory, \<open>install_dependencies\<close> raises a \<open>RuntimeError\<close> whose message
  names the missing path, and the state is untouched: nothing was printed or executed.
  The missing path is the file name behind the tool directory's prefix in the host's path
  flavour: behind \<open>/opt/vcpkg/\<close> for \<open>/opt/vcpkg\<close> and behind nothing for the current
  directory on a POSIX host, behind the directory and a backslash on a Windows host.
\<close>

theorem install_dependencies_missing_exe:
  assumes "\<not> fs w (dir_prefix h vcpkg_dir
              @ (if str_lower (platform_system h) = ''windows'' then ''vcpkg.exe'' else ''vcpkg''))"
  shows "install_dependencies h vcpkg_dir root trip vb w =
           (Inl (RuntimeError (''vcpkg executable not found at '' @ dir_prefix h vcpkg_dir
              @ (if str_lower (platform_system h) = ''windows'' then ''vcpkg.exe'' else ''vcpkg''))), w)"
proof -
  have e: "vcpkg_exe_of h vcpkg_dir = dir_prefix h vcpkg_dir
              @ (if str_lower (platform_system h) = ''windows'' then ''vcpkg.exe'' else ''vcpkg'')"
    by (simp add: vcpkg_exe_of_def joinpath_def plain_name_def)
  show ?thesis
    using assms unfolding install_dependencies_def Let_def e by simp
qed

theorem install_dependencies_missing_exe_witness:
  "\<not> fs \<lparr>fs = empty_fs, out = []\<rparr> ''/opt/vcpkg/vcpkg''
   \<and> install_dependencies linux_host ''/opt/vcpkg'' ''/proj'' ''x64-linux'' False \<lparr>fs = empty_fs, out = []\<rparr>
     = (Inl (RuntimeError ''vcpkg executable not found at /opt/vcpkg/vcpkg''), \<lparr>fs = empty_fs, out = []\<rparr>)
   \<and> install_dependencies linux_host ''.'' ''/proj'' ''x64-linux'' False \<lparr>fs = empty_fs, out = []\<rparr>
     = (Inl (RuntimeError ''vcpkg executable not found at vcpkg''), \<lparr>fs = empty_fs, out = []\<rparr>)
   \<and> install_dependencies linux_host ''/'' ''/proj'' ''x64-linux'' False \<lparr>fs = empty_fs, out = []\<rparr>
     = (Inl (RuntimeError ''vcpkg executable not found at /vcpkg''), \<lparr>fs = empty_fs, out = []\<rparr>)
   \<and> install_dependencies windows_host (''C:'' @ [CHR 0x5C] @ ''vcpkg'')
       (''C:'' @ [CHR 0x5C] @ ''proj'') ''x64-mingw-static'' False \<lparr>fs = empty_fs, out = []\<rparr>
     = (Inl (RuntimeError (''vcpkg executable not found at C:'' @ [CHR 0x5C] @ ''vcpkg''
                            @ [CHR 0x5C] @ ''vcpkg.exe'')),
        \<lparr>fs = empty_fs, out = []\<rparr>)"
proof -
  let ?w = "\<lparr>fs = empty_fs, out = []\<rparr>"
  have h: "\<not> fs ?w (dir_prefix k d
              @ (if str_lower (platform_system k) = ''windows'' then ''vcpkg.exe'' else ''vcpkg''))"
    for k d
    by (simp add: empty_fs_def)
  have n: "\<not> fs ?w ''/opt/vcpkg/vcpkg''"
    by (simp add: empty_fs_def)
  have lw: "str_lower (platform_system linux_host) \<noteq> ''windows''"
           "str_lower (platform_system windows_host) = ''windows''"
    by (simp_all add: host_defs str_lower_def lower_char_def)
  have e1: "install_dependencies linux_host ''/opt/vcpkg'' ''/proj'' ''x64-linux'' False ?w
     = (Inl (RuntimeError ''vcpkg executable not found at /opt/vcpkg/vcpkg''), ?w)"
    using install_dependencies_missing_exe
            [OF h, of linux_host "''/opt/vcpkg''" "''/proj''" "''x64-linux''" False]
    by (simp add: lw) (simp add: host_defs)
  have e2: "install_dependencies linux_host ''.'' ''/proj'' ''x64-linux'' False ?w
     = (Inl (RuntimeError ''vcpkg executable not found at vcpkg''), ?w)"
    using install_dependencies_missing_exe
            [OF h, of linux_host "''.''" "''/proj''" "''x64-linux''" False]
    by (simp add: lw) (simp add: host_defs)
  have e3: "install_dependencies linux_host ''/'' ''/proj'' ''x64-linux'' False ?w
     = (Inl (RuntimeError ''vcpkg executable not found at /vcpkg''), ?w)"
    using install_dependencies_missing_exe
            [OF h, of linux_host "''/''" "''/proj''" "''x64-linux''" False]
    by (simp add: lw) (simp add: host_defs)
  have e4: "install_dependencies windows_host (''C:'' @ [CHR 0x5C] @ ''vcpkg'')
       (''C:'' @ [CHR 0x5C] @ ''proj'') ''x64-mingw-static'' False ?w
     = (Inl (RuntimeError (''vcpkg executable not found at C:'' @ [CHR 0x5C] @ ''vcpkg''
                            @ [CHR 0x5C] @ ''vcpkg.exe'')), ?w)"
    using install_dependencies_missing_exe
            [OF h, of windows_host "''C:'' @ [CHR 0x5C] @ ''vcpkg''"
               "''C:'' @ [CHR 0x5C] @ ''proj''" "''x64-mingw-static''" False]
    by (simp add: lw) (simp add: host_defs)
  from n e1 e2 e3 e4 show ?thesis by (intro conjI)
qed

text \<open>
  C8. A command given as one string is executed as the list of its whitespace-separated
  words: no argument is empty or contains whitespace, and together the arguments are the
  string with its whitespace removed.
\<close>

theorem run_command_splits_string:
  "runs (out (snd (run_command h (CmdStr s) cwd env capture w))) = runs (out w) @ [str_split s]
   \<and> (\<forall>a\<in>set (str_split s). a \<noteq> [] \<and> (\<forall>c\<in>set a. \<not> is_space c))
   \<and> concat (str_split s) = filter (\<lambda>c. \<not> is_space c) s"
  using split_from_words [of "[]" s]
  by (simp add: run_command_runs argv_of_def str_split_def concat_split_from)

theorem run_command_splits_string_witness:
  "str_split ''git  commit -m fix bug'' = [''git'', ''commit'', ''-m'', ''fix'', ''bug'']
   \<and> runs (out (snd (run_command linux_host (CmdStr ''git  commit -m fix bug'') None None False
        \<lparr>fs = empty_fs, out = []\<rparr>)))
     = [[''git'', ''commit'', ''-m'', ''fix'', ''bug'']]
   \<and> list_all (\<lambda>a. a \<noteq> [] \<and> list_all (\<lambda>c. \<not> is_space c) a)
         (str_split ''git  commit -m fix bug'')"
proof -
  have s: "str_split ''git  commit -m fix bug'' = [''git'', ''commit'', ''-m'', ''fix'', ''bug'']"
    by (simp add: str_split_def is_space_def)
  from run_command_splits_string [of linux_host "''git  commit -m fix bug''" None None False
         "\<lparr>fs = empty_fs, out = []\<rparr>"] s
  show ?thesis by (simp add: list_all_iff)
qed

text \<open>
  C9. For a system name that is neither windows nor darwin, \<open>get_triplet\<close> is x64-linux
  and the required compiler is gcc (without it the check fails); when the name is not linux
  either and a tool is missing, the hint printed last is the choco command.
\<close>

theorem other_systems_are_linux:
  assumes "str_lower (platform_system h) \<noteq> ''windows''"
      and "str_lower (platform_system h) \<noteq> ''darwin''"
  shows "get_triplet h = ''x64-linux''
       \<and> required_tools h = [''git'', ''cmake'', ''ninja'', ''gcc'']
       \<and> (\<not> which h ''gcc'' \<longrightarrow> \<not> fst (check_dependencies h w))
       \<and> (str_lower (platform_system h) \<noteq> ''linux'' \<and> missing_tools h \<noteq> [] \<longrightarrow>
            last (out (snd (check_dependencies h w))) = Print ''  choco install cmake ninja git llvm'')"
proof -
  have r: "required_tools h = [''git'', ''cmake'', ''ninja'', ''gcc'']"
    using assms by (simp add: required_tools_def)
  have "\<not> which h ''gcc'' \<Longrightarrow> missing_tools h \<noteq> []"
    by (simp add: missing_tools_def r check_tool_def)
  then have "\<not> which h ''gcc'' \<longrightarrow> \<not> fst (check_dependencies h w)"
    by (simp add: check_dependencies_ok)
  moreover have "get_triplet h = ''x64-linux''"
    using assms by (simp add: get_triplet_def)
  moreover have "str_lower (platform_system h) \<noteq> ''linux'' \<and> missing_tools h \<noteq> [] \<longrightarrow>
            last (out (snd (check_dependencies h w))) = Print ''  choco install cmake ninja git llvm''"
    using assms by (simp add: check_dependencies_def install_hint_def Let_def)
  ultimately show ?thesis using r by simp
qed

theorem other_systems_are_linux_witness:
  "str_lower (platform_system freebsd_host) \<noteq> ''windows''
   \<and> str_lower (platform_system freebsd_host) \<noteq> ''darwin''
   \<and> str_lower (platform_system freebsd_host) \<noteq> ''linux''
   \<and> \<not> which freebsd_host ''gcc''
   \<and> missing_tools freebsd_host \<noteq> []
   \<and> get_triplet freebsd_host = ''x64-linux''
   \<and> required_tools freebsd_host = [''git'', ''cmake'', ''ninja'', ''gcc'']
   \<and> \<not> fst (check_dependencies freebsd_host \<lparr>fs = empty_fs, out = []\<rparr>)
   \<and> last (out (snd (check_dependencies freebsd_host \<lparr>fs = empty_fs, out = []\<rparr>)))
       = Print ''  choco install cmake ninja git llvm''"
proof -
  have h1: "str_lower (platform_system freebsd_host) \<noteq> ''windows''"
    by (simp add: model_defs host_defs)
  have h2: "str_lower (platform_system freebsd_host) \<noteq> ''darwin''"
    by (simp add: model_defs host_defs)
  have h3: "str_lower (platform_system freebsd_host) \<noteq> ''linux''"
    by (simp add: model_defs host_defs)
  have h4: "\<not> which freebsd_host ''gcc''"
    by (simp add: host_defs)
  have h5: "missing_tools freebsd_host \<noteq> []"
    by (simp add: model_defs host_defs)
  from other_systems_are_linux [OF h1 h2, of "\<lparr>fs = empty_fs, out = []\<rparr>"] h1 h2 h3 h4 h5
  show ?thesis by simp
qed

text \<open>
  C10. An empty \<open>--triplet\<close> resolves to the platform's triplet and the whole run is the
  run without the flag; an empty \<open>--vcpkg-root\<close> takes the clone and bootstrap path and
  the whole run is the run without the flag.
\<close>

theorem empty_flags_are_absent:
  "resolve_triplet h (a\<lparr>triplet := Some []\<rparr>) = get_triplet h
   \<and> script h (a\<lparr>triplet := Some []\<rparr>) fs0 = script h (a\<lparr>triplet := None\<rparr>) fs0
   \<and> choose_vcpkg_dir h (a\<lparr>vcpkg_root := Some []\<rparr>) w =
       (case setup_vcpkg h (project_root h) (verbose a) w of
          (Inl e, w') \<Rightarrow> (Inl (Inl e), w')
        | (Inr d, w') \<Rightarrow> (Inr d, w'))
   \<and> script h (a\<lparr>vcpkg_root := Some []\<rparr>) fs0 = script h (a\<lparr>vcpkg_root := None\<rparr>) fs0"
proof -
  have 1: "resolve_triplet h (a\<lparr>triplet := Some []\<rparr>) = get_triplet h"
    by (simp add: resolve_triplet_def)
  have "main h (a\<lparr>triplet := Some []\<rparr>) \<lparr>fs = fs0, out = []\<rparr>
        = main h (a\<lparr>triplet := None\<rparr>) \<lparr>fs = fs0, out = []\<rparr>"
    by (rule main_cong) (simp_all add: resolve_triplet_def choose_vcpkg_dir_def cong: option.case_cong if_cong)
  then have 2: "script h (a\<lparr>triplet := Some []\<rparr>) fs0 = script h (a\<lparr>triplet := None\<rparr>) fs0"
    by (simp add: script_def)
  have 3: "choose_vcpkg_dir h (a\<lparr>vcpkg_root := Some []\<rparr>) w =
       (case setup_vcpkg h (project_root h) (verbose a) w of
          (Inl e, w') \<Rightarrow> (Inl (Inl e), w')
        | (Inr d, w') \<Rightarrow> (Inr d, w'))"
    by (simp add: choose_vcpkg_dir_def)
  have "main h (a\<lparr>vcpkg_root := Some []\<rparr>) \<lparr>fs = fs0, out = []\<rparr>
        = main h (a\<lparr>vcpkg_root := None\<rparr>) \<lparr>fs = fs0, out = []\<rparr>"
    by (rule main_cong) (simp_all add: resolve_triplet_def choose_vcpkg_dir_def)
  then have 4: "script h (a\<lparr>vcpkg_root := Some []\<rparr>) fs0 = script h (a\<lparr>vcpkg_root := None\<rparr>) fs0"
    by (simp add: script_def)
  from 1 2 3 4 show ?thesis by blast
qed

end
